theory Spec2Isabelle
  imports Main "HOL-Library.AList"
begin

section \<open>Python values\<close>

text \<open>
  The inline utilities of Hikka (\<^verbatim>\<open>hikka/inline/utils.py\<close>) are dynamically typed: a button
  may be any object, a parameter of the edit call may hold a value of any type. Values are
  therefore modelled by one datatype. Dictionaries are association lists with string keys
  (the keys of buttons and units are string literals in the source); callables and other
  objects are opaque and identified by a number.
\<close>

datatype pyval =
    PNone
  | PBool bool
  | PInt int
  | PStr string
  | PBytes string
  | PList "pyval list"
  | PDict "(string \<times> pyval) list"
  | PCallable nat
  | PObject nat

type_synonym pydict = "(string \<times> pyval) list"

datatype exn =
    KeyError
  | TypeError
  | AttributeError
  | UnboundLocalError
  | RetryAfter nat
  | MessageNotModified
  | MessageIdInvalid
  | InvalidQueryID
  | OtherError

text \<open>Truth value of an object, as \<^verbatim>\<open>if x\<close> and \<^verbatim>\<open>not x\<close> test it.\<close>

fun truthy :: "pyval \<Rightarrow> bool" where
  "truthy PNone = False"
| "truthy (PBool b) = b"
| "truthy (PInt i) = (i \<noteq> 0)"
| "truthy (PStr s) = (s \<noteq> [])"
| "truthy (PBytes s) = (s \<noteq> [])"
| "truthy (PList xs) = (xs \<noteq> [])"
| "truthy (PDict kvs) = (kvs \<noteq> [])"
| "truthy (PCallable f) = True"
| "truthy (PObject x) = True"

fun is_dict :: "pyval \<Rightarrow> bool" where
  "is_dict (PDict kvs) = True"
| "is_dict v = False"

fun is_list :: "pyval \<Rightarrow> bool" where
  "is_list (PList xs) = True"
| "is_list v = False"

fun is_str :: "pyval \<Rightarrow> bool" where
  "is_str (PStr s) = True"
| "is_str v = False"

fun is_bool :: "pyval \<Rightarrow> bool" where
  "is_bool (PBool b) = True"
| "is_bool v = False"

text \<open>Lists and dictionaries cannot be keys of a dictionary: the store raises TypeError.\<close>

fun hashable :: "pyval \<Rightarrow> bool" where
  "hashable (PList xs) = False"
| "hashable (PDict kvs) = False"
| "hashable v = True"

text \<open>\<^verbatim>\<open>for x in v\<close>: the elements of a list, the characters of a string, the bytes of a
  bytes object, the keys of a dictionary; anything else raises TypeError.\<close>

fun py_iter :: "pyval \<Rightarrow> exn + pyval list" where
  "py_iter (PList xs) = Inr xs"
| "py_iter (PStr s) = Inr (map (\<lambda>c. PStr [c]) s)"
| "py_iter (PBytes s) = Inr (map (\<lambda>c. PInt (of_char c)) s)"
| "py_iter (PDict kvs) = Inr (map (\<lambda>kv. PStr (fst kv)) kvs)"
| "py_iter v = Inl TypeError"

definition has_key :: "string \<Rightarrow> pydict \<Rightarrow> bool" where
  "has_key k d = (map_of d k \<noteq> None)"

text \<open>\<^verbatim>\<open>d[k]\<close> raises KeyError on a missing key; \<^verbatim>\<open>d.get(k, False)\<close> does not.\<close>

definition getitem :: "pydict \<Rightarrow> string \<Rightarrow> exn + pyval" where
  "getitem d k = (case map_of d k of None \<Rightarrow> Inl KeyError | Some v \<Rightarrow> Inr v)"

definition get_or_False :: "pydict \<Rightarrow> string \<Rightarrow> pyval" where
  "get_or_False d k = (case map_of d k of None \<Rightarrow> PBool False | Some v \<Rightarrow> v)"

definition bindE :: "exn + 'a \<Rightarrow> ('a \<Rightarrow> exn + 'b) \<Rightarrow> exn + 'b" where
  "bindE m f = (case m of Inl x \<Rightarrow> Inl x | Inr v \<Rightarrow> f v)"

section \<open>State and environment\<close>

text \<open>
  \<^verbatim>\<open>InlineKeyboardButton(text, url=..)\<close>, \<^verbatim>\<open>(text, callback_data=..)\<close> and
  \<^verbatim>\<open>(text, switch_inline_query_current_chat=..)\<close> are the three forms the source builds.
\<close>

datatype button_kw = Url pyval | CallbackData pyval | SwitchInlineQueryCurrentChat pyval

datatype ikb = InlineKeyboardButton pyval button_kw

text \<open>What \<^verbatim>\<open>_generate_markup\<close> returns: None, False, or the keyboard (its rows).\<close>

datatype markup = RNone | RFalse | InlineKeyboardMarkup "ikb list list"

datatype input_media =
    InputMediaDocument pyval pyval
  | InputMediaPhoto pyval pyval
  | InputMediaAudio pyval pyval
  | InputMediaVideo pyval pyval
  | InputMediaAnimation pyval pyval

text \<open>The calls that leave the module, in the order they are made.\<close>

datatype event =
    EditMessageText pyval pyval pyval markup
  | EditMessageMedia pyval input_media markup
  | DeleteMessages pyval pyval
  | Sleep nat
  | QueryAnswer
  | OnUnload nat

text \<open>
  \<^verbatim>\<open>self._units\<close> maps a unit id to the unit's dictionary, \<^verbatim>\<open>self._custom_map\<close> maps a
  callback token to its registration. \<open>rand_calls\<close> counts the calls of \<^verbatim>\<open>utils.rand\<close> so
  far, \<open>responses\<close> holds the outcomes of the coming transport calls (\<open>None\<close>: the call
  succeeds; an exhausted list: every further call succeeds), \<open>trace\<close> records the calls made.
\<close>

record state =
  units :: "(string \<times> pydict) list"
  custom_map :: "(pyval \<times> pydict) list"
  rand_calls :: nat
  responses :: "exn option list"
  trace :: "event list"

text \<open>
  The collaborators that are not part of \<^verbatim>\<open>utils.py\<close>: \<^verbatim>\<open>utils.check_url\<close>, \<^verbatim>\<open>utils.rand\<close>
  (\<open>rand e k n\<close> is the string the \<open>k\<close>-th call returns when asked for \<open>n\<close> characters),
  \<open>url_ext\<close> for \<^verbatim>\<open>os.path.splitext(urlparse(v).path)[1]\<close> (\<open>None\<close> when that raises) and
  the behaviour of the callables stored as \<^verbatim>\<open>on_unload\<close> hooks: \<open>call e f us\<close> runs the
  callable \<open>f\<close> on the unit store \<open>us\<close> and says whether it raised and what store it left.
\<close>

record env =
  check_url :: "pyval \<Rightarrow> bool"
  rand :: "nat \<Rightarrow> nat \<Rightarrow> string"
  url_ext :: "pyval \<Rightarrow> string option"
  call :: "nat \<Rightarrow> (string \<times> pydict) list \<Rightarrow> bool \<times> (string \<times> pydict) list"

section \<open>Compiling a button matrix\<close>

text \<open>\<^verbatim>\<open>_normalize_markup\<close>\<close>

definition normalize_markup :: "pyval \<Rightarrow> pyval" where
  "normalize_markup reply_markup =
     (case reply_markup of
        PDict d \<Rightarrow> PList [PList [reply_markup]]
      | PList xs \<Rightarrow> if list_ex is_dict xs then PList [reply_markup] else reply_markup
      | _ \<Rightarrow> reply_markup)"

text \<open>
  The first loop of \<^verbatim>\<open>_generate_markup\<close> writes the missing tokens into the button
  dictionaries, in place. The model rebuilds the matrix with the buttons as the loop leaves
  them and threads the pair (calls of rand so far, \<^verbatim>\<open>setup_callbacks\<close>). Every button of the
  matrix is taken as an object of its own.
\<close>

definition prep_button :: "env \<Rightarrow> nat \<times> bool \<Rightarrow> pydict \<Rightarrow> (nat \<times> bool) \<times> pydict" where
  "prep_button e acc button =
     (let (k, setup_callbacks) = acc;
          (k1, setup1, b1) =
            (if has_key ''callback'' button \<and> \<not> has_key ''_callback_data'' button
             then (Suc k, True, AList.update ''_callback_data'' (PStr (rand e k 30)) button)
             else (k, setup_callbacks, button));
          (k2, b2) =
            (if has_key ''input'' b1 \<and> \<not> has_key ''_switch_query'' b1
             then (Suc k1, AList.update ''_switch_query'' (PStr (rand e k1 10)) b1)
             else (k1, b1))
      in ((k2, setup1), b2))"

text \<open>The inner loop over one row; the flag says that a button was not a dict
  (\<^verbatim>\<open>return None\<close>).\<close>

fun prep_row :: "env \<Rightarrow> nat \<times> bool \<Rightarrow> pyval list \<Rightarrow> bool \<times> (nat \<times> bool) \<times> pyval list" where
  "prep_row e acc [] = (False, acc, [])"
| "prep_row e acc (PDict b # bs) =
     (let (acc1, b1) = prep_button e acc b;
          (r, acc2, bs1) = prep_row e acc1 bs
      in (r, acc2, PDict b1 # bs1))"
| "prep_row e acc (v # bs) = (True, acc, v # bs)"

datatype prep_out = PrepDone | PrepNone | PrepRaise exn

fun prep_rows :: "env \<Rightarrow> nat \<times> bool \<Rightarrow> pyval list \<Rightarrow> prep_out \<times> (nat \<times> bool) \<times> pyval list" where
  "prep_rows e acc [] = (PrepDone, acc, [])"
| "prep_rows e acc (row # rows) =
     (case py_iter row of
        Inl x \<Rightarrow> (PrepRaise x, acc, row # rows)
      | Inr bs \<Rightarrow>
          (let (r, acc1, bs1) = prep_row e acc bs;
               row1 = (case row of PList old \<Rightarrow> PList bs1 | _ \<Rightarrow> row)
           in if r then (PrepNone, acc1, row1 # rows)
              else (let (out, acc2, rows1) = prep_rows e acc1 rows
                    in (out, acc2, row1 # rows1))))"

text \<open>The registration written to \<^verbatim>\<open>self._custom_map\<close> for a callback button.\<close>

definition registration :: "pydict \<Rightarrow> pyval \<Rightarrow> pydict" where
  "registration button handler =
     [(''handler'', handler)]
     @ (if truthy (get_or_False button ''always_allow'')
        then [(''always_allow'', get_or_False button ''always_allow'')] else [])
     @ (if truthy (get_or_False button ''args'')
        then [(''args'', get_or_False button ''args'')] else [])
     @ (if truthy (get_or_False button ''kwargs'')
        then [(''kwargs'', get_or_False button ''kwargs'')] else [])
     @ (if truthy (get_or_False button ''force_me'') then [(''force_me'', PBool True)] else [])
     @ (if truthy (get_or_False button ''disable_security'')
        then [(''disable_security'', PBool True)] else [])"

text \<open>\<^verbatim>\<open>button["_switch_query"] + " "\<close>: only a string can be added to a string.\<close>

definition add_space :: "pyval \<Rightarrow> exn + pyval" where
  "add_space v = (case v of PStr s \<Rightarrow> Inr (PStr (s @ '' '')) | _ \<Rightarrow> Inl TypeError)"

text \<open>
  The body of the \<^verbatim>\<open>try\<close> of the second loop, for one button: the controls added to the
  line (none or one) and the registry, or the exception raised.
\<close>

definition tr_button :: "env \<Rightarrow> bool \<Rightarrow> (pyval \<times> pydict) list \<Rightarrow> pydict
    \<Rightarrow> exn + (ikb list \<times> (pyval \<times> pydict) list)" where
  "tr_button e setup_callbacks cm button =
     (if has_key ''url'' button then
        bindE (getitem button ''url'') (\<lambda>u.
          if \<not> check_url e u then Inr ([], cm)
          else bindE (getitem button ''text'') (\<lambda>t.
            Inr ([InlineKeyboardButton t (Url u)], cm)))
      else if has_key ''callback'' button then
        bindE (getitem button ''text'') (\<lambda>t.
        bindE (getitem button ''_callback_data'') (\<lambda>c.
          if setup_callbacks then
            bindE (getitem button ''callback'') (\<lambda>h.
              if hashable c
              then Inr ([InlineKeyboardButton t (CallbackData c)],
                        AList.update c (registration button h) cm)
              else Inl TypeError)
          else Inr ([InlineKeyboardButton t (CallbackData c)], cm)))
      else if has_key ''input'' button then
        bindE (getitem button ''text'') (\<lambda>t.
        bindE (getitem button ''_switch_query'') (\<lambda>q.
        bindE (add_space q) (\<lambda>qs.
          Inr ([InlineKeyboardButton t (SwitchInlineQueryCurrentChat qs)], cm))))
      else if has_key ''data'' button then
        bindE (getitem button ''text'') (\<lambda>t.
        bindE (getitem button ''data'') (\<lambda>c.
          Inr ([InlineKeyboardButton t (CallbackData c)], cm)))
      else if has_key ''switch_inline_query_current_chat'' button then
        bindE (getitem button ''text'') (\<lambda>t.
        bindE (getitem button ''switch_inline_query_current_chat'') (\<lambda>q.
          Inr ([InlineKeyboardButton t (SwitchInlineQueryCurrentChat q)], cm)))
      else if has_key ''switch_inline_query'' button then
        bindE (getitem button ''text'') (\<lambda>t.
        bindE (getitem button ''switch_inline_query'') (\<lambda>q.
          Inr ([InlineKeyboardButton t (SwitchInlineQueryCurrentChat q)], cm)))
      else Inr ([], cm))"

text \<open>
  The second loop over one row and over the rows. An exception leaves the loop with the
  registry as written so far. The first loop has returned on every button that is not a
  dict, so the second loop meets dicts only; the remaining case is there for totality.
\<close>

fun tr_row :: "env \<Rightarrow> bool \<Rightarrow> (pyval \<times> pydict) list \<Rightarrow> pyval list
    \<Rightarrow> (exn + ikb list) \<times> (pyval \<times> pydict) list" where
  "tr_row e setup_callbacks cm [] = (Inr [], cm)"
| "tr_row e setup_callbacks cm (PDict b # bs) =
     (case tr_button e setup_callbacks cm b of
        Inl x \<Rightarrow> (Inl x, cm)
      | Inr (added, cm1) \<Rightarrow>
          (case tr_row e setup_callbacks cm1 bs of
             (Inl x, cm2) \<Rightarrow> (Inl x, cm2)
           | (Inr line, cm2) \<Rightarrow> (Inr (added @ line), cm2)))"
| "tr_row e setup_callbacks cm (v # bs) = (Inl TypeError, cm)"

fun tr_rows :: "env \<Rightarrow> bool \<Rightarrow> (pyval \<times> pydict) list \<Rightarrow> pyval list
    \<Rightarrow> (exn + ikb list list) \<times> (pyval \<times> pydict) list" where
  "tr_rows e setup_callbacks cm [] = (Inr [], cm)"
| "tr_rows e setup_callbacks cm (row # rows) =
     (case py_iter row of
        Inl x \<Rightarrow> (Inl x, cm)
      | Inr bs \<Rightarrow>
          (case tr_row e setup_callbacks cm bs of
             (Inl x, cm1) \<Rightarrow> (Inl x, cm1)
           | (Inr line, cm1) \<Rightarrow>
               (case tr_rows e setup_callbacks cm1 rows of
                  (Inl x, cm2) \<Rightarrow> (Inl x, cm2)
                | (Inr kb, cm2) \<Rightarrow> (Inr (line # kb), cm2))))"

text \<open>\<^verbatim>\<open>self._units[markup_obj]["buttons"]\<close>\<close>

definition unit_buttons :: "(string \<times> pydict) list \<Rightarrow> string \<Rightarrow> exn + pyval" where
  "unit_buttons us name =
     (case map_of us name of None \<Rightarrow> Inl KeyError | Some u \<Rightarrow> getitem u ''buttons'')"

text \<open>
  The buttons of a stored unit are the objects the first loop writes to. \<open>write_back\<close>
  gives the stored object as the loop leaves it, from the stored object and the matrix
  \<^verbatim>\<open>map_\<close> after the loop: \<^verbatim>\<open>_normalize_markup\<close> has wrapped a dict into \<^verbatim>\<open>[[d]]\<close> and a
  flat list into \<^verbatim>\<open>[row]\<close>.
\<close>

definition write_back :: "pyval \<Rightarrow> pyval \<Rightarrow> pyval" where
  "write_back stored map1 =
     (case stored of
        PDict d \<Rightarrow> (case map1 of PList [PList [d1]] \<Rightarrow> d1 | _ \<Rightarrow> stored)
      | PList xs \<Rightarrow>
          if list_ex is_dict xs then (case map1 of PList [row1] \<Rightarrow> row1 | _ \<Rightarrow> stored)
          else map1
      | _ \<Rightarrow> stored)"

definition set_unit_field :: "string \<Rightarrow> string \<Rightarrow> pyval \<Rightarrow> (string \<times> pydict) list
    \<Rightarrow> (string \<times> pydict) list" where
  "set_unit_field uid k v us =
     (case map_of us uid of
        None \<Rightarrow> us
      | Some u \<Rightarrow> AList.update uid (AList.update k v u) us)"

text \<open>
  \<^verbatim>\<open>_generate_markup\<close>. The result is the value returned or the exception raised, the state
  after the call, and the matrix \<^verbatim>\<open>map_\<close> as the call leaves it (the caller's buttons carry
  the tokens the call has written).
\<close>

definition generate_markup :: "env \<Rightarrow> state \<Rightarrow> pyval \<Rightarrow> (exn + markup) \<times> state \<times> pyval" where
  "generate_markup e st markup_obj =
     (if \<not> truthy markup_obj then (Inr RNone, st, markup_obj)
      else
        case (case markup_obj of PStr name \<Rightarrow> unit_buttons (units st) name
                               | _ \<Rightarrow> Inr markup_obj) of
          Inl x \<Rightarrow> (Inl x, st, markup_obj)
        | Inr stored \<Rightarrow>
            (let map0 = normalize_markup stored in
             case py_iter map0 of
               Inl x \<Rightarrow> (Inl x, st, map0)
             | Inr rows \<Rightarrow>
                 (let (out, acc, rows1) = prep_rows e (rand_calls st, False) rows;
                      map1 = (case map0 of PList old \<Rightarrow> PList rows1 | _ \<Rightarrow> map0);
                      st1 = st\<lparr>rand_calls := fst acc,
                               units := (case markup_obj of
                                           PStr name \<Rightarrow>
                                             set_unit_field name ''buttons''
                                               (write_back stored map1) (units st)
                                         | _ \<Rightarrow> units st)\<rparr>
                  in case out of
                       PrepNone \<Rightarrow> (Inr RNone, st1, map1)
                     | PrepRaise x \<Rightarrow> (Inl x, st1, map1)
                     | PrepDone \<Rightarrow>
                         (case tr_rows e (snd acc) (custom_map st1) rows1 of
                            (Inl KeyError, cm) \<Rightarrow> (Inr RFalse, st1\<lparr>custom_map := cm\<rparr>, map1)
                          | (Inl x, cm) \<Rightarrow> (Inl x, st1\<lparr>custom_map := cm\<rparr>, map1)
                          | (Inr kb, cm) \<Rightarrow>
                              (Inr (InlineKeyboardMarkup kb), st1\<lparr>custom_map := cm\<rparr>, map1)))))"

section \<open>Unloading and deleting a unit\<close>

definition lookup_unit :: "(string \<times> pydict) list \<Rightarrow> string option \<Rightarrow> pydict option" where
  "lookup_unit us unit_uid = (case unit_uid of None \<Rightarrow> None | Some uid \<Rightarrow> map_of us uid)"

text \<open>
  \<^verbatim>\<open>_unload_unit\<close>. A missing unit makes \<^verbatim>\<open>self._units[unit_uid]\<close> raise KeyError, which the
  \<^verbatim>\<open>except Exception\<close> turns into False, as it does with an exception of the hook.
\<close>

definition unload_unit :: "env \<Rightarrow> state \<Rightarrow> string option \<Rightarrow> bool \<times> state" where
  "unload_unit e st unit_uid =
     (case lookup_unit (units st) unit_uid of
        None \<Rightarrow> (False, st)
      | Some u \<Rightarrow>
          (let (raised, st1) =
                 (case map_of u ''on_unload'' of
                    Some (PCallable f) \<Rightarrow>
                      (let (r, us) = call e f (units st)
                       in (r, st\<lparr>units := us, trace := trace st @ [OnUnload f]\<rparr>))
                  | _ \<Rightarrow> (False, st))
           in if raised then (False, st1)
              else (case lookup_unit (units st1) unit_uid of
                      Some u1 \<Rightarrow> (True, st1\<lparr>units := AList.delete (the unit_uid) (units st1)\<rparr>)
                    | None \<Rightarrow> (False, st1))))"

text \<open>A transport call: it is recorded, and its outcome is the next of \<open>responses\<close>.\<close>

definition transport :: "event \<Rightarrow> state \<Rightarrow> exn option \<times> state" where
  "transport ev st =
     (case responses st of
        [] \<Rightarrow> (None, st\<lparr>trace := trace st @ [ev]\<rparr>)
      | r # rs \<Rightarrow> (r, st\<lparr>responses := rs, trace := trace st @ [ev]\<rparr>))"

text \<open>\<^verbatim>\<open>_delete_unit_message\<close>\<close>

definition delete_unit_message :: "env \<Rightarrow> state \<Rightarrow> string option \<Rightarrow> bool \<times> state" where
  "delete_unit_message e st unit_uid =
     (case lookup_unit (units st) unit_uid of
        None \<Rightarrow> (False, st)
      | Some u \<Rightarrow>
          (case bindE (getitem u ''chat'') (\<lambda>c.
                  bindE (getitem u ''message_id'') (\<lambda>m. Inr (c, m))) of
             Inl x \<Rightarrow> (False, st)
           | Inr (c, m) \<Rightarrow>
               (case transport (DeleteMessages c (PList [m])) st of
                  (Some x, st1) \<Rightarrow> (False, st1)
                | (None, st1) \<Rightarrow> (True, snd (unload_unit e st1 unit_uid)))))"

section \<open>Editing a unit\<close>

text \<open>The originating \<^verbatim>\<open>CallbackQuery\<close>: its \<^verbatim>\<open>inline_message_id\<close> and what
  \<^verbatim>\<open>answer()\<close> raises, if anything.\<close>

record query =
  q_inline_message_id :: pyval
  q_answer :: "exn option"

text \<open>The parameters of \<^verbatim>\<open>_edit_unit\<close> (\<open>text_arg\<close> is \<^verbatim>\<open>text\<close>,
  \<open>file_arg\<close> is \<^verbatim>\<open>file\<close>, \<open>query_arg\<close> is \<^verbatim>\<open>query\<close>).\<close>

record edit_args =
  text_arg :: pyval
  reply_markup :: pyval
  photo :: pyval
  file_arg :: pyval
  video :: pyval
  audio :: pyval
  gif :: pyval
  mime_type :: pyval
  force_me :: pyval
  disable_security :: pyval
  always_allow :: pyval
  disable_web_page_preview :: pyval
  query_arg :: "query option"
  unit_uid :: "string option"
  inline_message_id :: pyval

text \<open>
  \<^verbatim>\<open>isinstance(file, str, bytes, io.BytesIO)\<close>: \<^verbatim>\<open>isinstance\<close> takes exactly two arguments, so
  the call raises TypeError whatever \<^verbatim>\<open>file\<close> is.
\<close>

definition isinstance_str_bytes_BytesIO :: "pyval \<Rightarrow> exn + bool" where
  "isinstance_str_bytes_BytesIO v = Inl TypeError"

definition media_params :: "edit_args \<Rightarrow> bool list" where
  "media_params a =
     [photo a = PNone, gif a = PNone, file_arg a = PNone, video a = PNone, audio a = PNone]"

text \<open>The checks at the head of \<^verbatim>\<open>_edit_unit\<close>: \<open>Some\<close> is the value returned or the exception
  raised by a check, \<open>None\<close> says that all checks passed.\<close>

definition validate :: "env \<Rightarrow> edit_args \<Rightarrow> (exn + pyval) option" where
  "validate e a =
     (if \<not> is_str (text_arg a) then Some (Inr (PBool False))
      else if truthy (photo a) \<and> (\<not> is_str (photo a) \<or> \<not> check_url e (photo a))
        then Some (Inr (PBool False))
      else if truthy (gif a) \<and> (\<not> is_str (gif a) \<or> \<not> check_url e (gif a))
        then Some (Inr (PBool False))
      else
        case (if truthy (file_arg a)
              then bindE (isinstance_str_bytes_BytesIO (file_arg a)) (\<lambda>b.
                     Inr (\<not> b \<or> (is_str (file_arg a) \<and> \<not> check_url e (file_arg a))))
              else Inr False) of
          Inl x \<Rightarrow> Some (Inl x)
        | Inr True \<Rightarrow> Some (Inr (PBool False))
        | Inr False \<Rightarrow>
            if truthy (file_arg a) \<and> \<not> truthy (mime_type a) then Some (Inr (PBool False))
            else if truthy (video a) \<and> (\<not> is_str (video a) \<or> \<not> check_url e (video a))
              then Some (Inr (PBool False))
            else if truthy (audio a) \<and> (\<not> is_str (audio a) \<or> \<not> check_url e (audio a))
              then Some (Inr (PBool False))
            else if count_list (media_params a) False > 1 then Some (Inr (PBool False))
            else None)"

text \<open>
  The update of the stored unit: the unit store after it and the local \<^verbatim>\<open>unit\<close>
  (\<^verbatim>\<open>{}\<close> when the unit is not stored). \<open>a\<close> holds the normalised \<^verbatim>\<open>reply_markup\<close>.
\<close>

definition update_unit :: "edit_args \<Rightarrow> (string \<times> pydict) list \<Rightarrow> (string \<times> pydict) list \<times> pydict" where
  "update_unit a us =
     (case lookup_unit us (unit_uid a) of
        None \<Rightarrow> (us, [])
      | Some u \<Rightarrow>
          (let u1 = AList.update ''buttons'' (reply_markup a) u;
               u2 = (if is_bool (force_me a) then AList.update ''force_me'' (force_me a) u1 else u1);
               u3 = (if is_bool (disable_security a)
                     then AList.update ''disable_security'' (disable_security a) u2 else u2);
               u4 = (if is_list (always_allow a)
                     then AList.update ''always_allow'' (always_allow a) u3 else u3)
           in (AList.update (the (unit_uid a)) u4 us, u4)))"

text \<open>\<^verbatim>\<open>inline_message_id or unit.get("inline_message_id", False) or query.inline_message_id\<close>\<close>

definition resolve_id :: "edit_args \<Rightarrow> pydict \<Rightarrow> exn + pyval" where
  "resolve_id a unit =
     (if truthy (inline_message_id a) then Inr (inline_message_id a)
      else if truthy (get_or_False unit ''inline_message_id'')
        then Inr (get_or_False unit ''inline_message_id'')
      else (case query_arg a of
              None \<Rightarrow> Inl AttributeError
            | Some q \<Rightarrow> Inr (q_inline_message_id q)))"

text \<open>
  \<^verbatim>\<open>self.generate_markup(reply_markup if isinstance(reply_markup, list) else
  unit.get("buttons", []))\<close>. When the list \<^verbatim>\<open>reply_markup\<close> is compiled, its buttons are
  those stored in the unit a few lines earlier, so the tokens written by the compiler show
  in the local \<^verbatim>\<open>reply_markup\<close> and in the stored unit. The result is what the compiler
  returned or raised, the state, and the local \<^verbatim>\<open>reply_markup\<close> after the call.
\<close>

definition compile_markup :: "env \<Rightarrow> state \<Rightarrow> edit_args \<Rightarrow> pydict
    \<Rightarrow> (exn + markup) \<times> state \<times> pyval" where
  "compile_markup e st a unit =
     (if is_list (reply_markup a) then
        (let (r, st1, map1) = generate_markup e st (reply_markup a)
         in (r,
             st1\<lparr>units := (case unit_uid a of
                              None \<Rightarrow> units st1
                            | Some uid \<Rightarrow> set_unit_field uid ''buttons'' map1 (units st1))\<rparr>,
             map1))
      else
        (let (r, st1, map1) =
               generate_markup e st
                 (case map_of unit ''buttons'' of None \<Rightarrow> PList [] | Some v \<Rightarrow> v)
         in (r, st1, reply_markup a)))"

text \<open>\<^verbatim>\<open>await query.answer()\<close> under \<^verbatim>\<open>contextlib.suppress(InvalidQueryID)\<close>, guarded by
  \<^verbatim>\<open>if query\<close>: another exception of \<^verbatim>\<open>answer\<close> leaves the call.\<close>

definition answer_not_modified :: "query option \<Rightarrow> state \<Rightarrow> exn option \<times> state" where
  "answer_not_modified q st =
     (case q of
        None \<Rightarrow> (None, st)
      | Some qq \<Rightarrow>
          (case q_answer qq of
             None \<Rightarrow> (None, st\<lparr>trace := trace st @ [QueryAnswer]\<rparr>)
           | Some InvalidQueryID \<Rightarrow> (None, st\<lparr>trace := trace st @ [QueryAnswer]\<rparr>)
           | Some x \<Rightarrow> (Some x, st\<lparr>trace := trace st @ [QueryAnswer]\<rparr>)))"

text \<open>\<^verbatim>\<open>await query.answer(..)\<close> under \<^verbatim>\<open>contextlib.suppress(Exception)\<close>: nothing leaves it,
  not even the AttributeError of a missing query.\<close>

definition answer_deleted :: "query option \<Rightarrow> state \<Rightarrow> state" where
  "answer_deleted q st =
     (case q of None \<Rightarrow> st | Some qq \<Rightarrow> st\<lparr>trace := trace st @ [QueryAnswer]\<rparr>)"

text \<open>
  The block under \<^verbatim>\<open># If passed `photo` is gif\<close>. It reads the local \<^verbatim>\<open>media\<close>, which is
  assigned only further down: \<open>None\<close> stands for the unbound variable, whose read raises
  UnboundLocalError, and the \<^verbatim>\<open>except Exception\<close> sets \<^verbatim>\<open>ext = None\<close>.
\<close>

definition media_ext :: "env \<Rightarrow> pyval option \<Rightarrow> string option" where
  "media_ext e media = (case media of None \<Rightarrow> None | Some m \<Rightarrow> url_ext e m)"

text \<open>The \<^verbatim>\<open>if\<close>/\<^verbatim>\<open>elif\<close> chain that builds \<^verbatim>\<open>media\<close>; with no branch taken the variable
  stays unbound.\<close>

definition build_media :: "edit_args \<Rightarrow> exn + input_media" where
  "build_media a =
     (if file_arg a \<noteq> PNone then Inr (InputMediaDocument (file_arg a) (text_arg a))
      else if photo a \<noteq> PNone then Inr (InputMediaPhoto (photo a) (text_arg a))
      else if audio a \<noteq> PNone then Inr (InputMediaAudio (audio a) (text_arg a))
      else if video a \<noteq> PNone then Inr (InputMediaVideo (video a) (text_arg a))
      else if gif a \<noteq> PNone then Inr (InputMediaAnimation (gif a) (text_arg a))
      else Inl UnboundLocalError)"

text \<open>
  One pass through the body of \<^verbatim>\<open>_edit_unit\<close>: it returns a value, raises, or has slept
  after a RetryAfter and is about to call itself.
\<close>

datatype outcome = Return pyval | Raise exn | Retry edit_args

text \<open>
  Modelled from the spec: \<^verbatim>\<open>utils.get_kwargs\<close> is not among the sources at hand. The spec has
  the retry re-issue the same edit call with the arguments of the running call. These are
  the parameter variables of the call, so the model passes them as they stand when the rate
  limit is signalled: \<^verbatim>\<open>reply_markup\<close> in normalised form with the tokens written into its
  buttons, \<^verbatim>\<open>inline_message_id\<close> resolved.
\<close>

definition get_kwargs :: "edit_args \<Rightarrow> edit_args" where
  "get_kwargs locals = locals"

definition edit_text :: "env \<Rightarrow> state \<Rightarrow> edit_args \<Rightarrow> pydict \<Rightarrow> outcome \<times> state" where
  "edit_text e st a unit =
     (let (r, st1, rm1) = compile_markup e st a unit;
          a1 = a\<lparr>reply_markup := rm1\<rparr>
      in case r of
           Inl x \<Rightarrow> (Raise x, st1)
         | Inr mk \<Rightarrow>
             (case transport (EditMessageText (text_arg a1) (inline_message_id a1)
                                (disable_web_page_preview a1) mk) st1 of
                (None, st2) \<Rightarrow> (Return PNone, st2)
              | (Some MessageNotModified, st2) \<Rightarrow>
                  (case answer_not_modified (query_arg a1) st2 of
                     (None, st3) \<Rightarrow> (Return PNone, st3)
                   | (Some x, st3) \<Rightarrow> (Raise x, st3))
              | (Some (RetryAfter d), st2) \<Rightarrow>
                  (Retry (get_kwargs a1), st2\<lparr>trace := trace st2 @ [Sleep d]\<rparr>)
              | (Some MessageIdInvalid, st2) \<Rightarrow>
                  (Return PNone, answer_deleted (query_arg a1) st2)
              | (Some x, st2) \<Rightarrow> (Raise x, st2)))"

definition edit_media :: "env \<Rightarrow> state \<Rightarrow> edit_args \<Rightarrow> pydict \<Rightarrow> outcome \<times> state" where
  "edit_media e st a unit =
     (let ext = media_ext e None;
          a1 = (if photo a \<noteq> PNone \<and> ext \<in> {Some ''.gif'', Some ''.mp4''}
                then a\<lparr>gif := photo a, photo := PNone\<rparr> else a)
      in case build_media a1 of
           Inl x \<Rightarrow> (Raise x, st)
         | Inr media \<Rightarrow>
             (let (r, st1, rm1) = compile_markup e st a1 unit;
                  a2 = a1\<lparr>reply_markup := rm1\<rparr>
              in case r of
                   Inl x \<Rightarrow> (Raise x, st1)
                 | Inr mk \<Rightarrow>
                     (case transport (EditMessageMedia (inline_message_id a2) media mk) st1 of
                        (None, st2) \<Rightarrow> (Return PNone, st2)
                      | (Some (RetryAfter d), st2) \<Rightarrow>
                          (Retry (get_kwargs a2), st2\<lparr>trace := trace st2 @ [Sleep d]\<rparr>)
                      | (Some MessageIdInvalid, st2) \<Rightarrow>
                          (Return PNone, answer_deleted (query_arg a2) st2)
                      | (Some x, st2) \<Rightarrow> (Raise x, st2))))"

text \<open>The first lines of \<^verbatim>\<open>_edit_unit\<close>: \<^verbatim>\<open>reply_markup\<close> is normalised, None becomes
  \<^verbatim>\<open>[[]]\<close>.\<close>

definition normalize_arg :: "edit_args \<Rightarrow> edit_args" where
  "normalize_arg a0 =
     (if is_list (reply_markup a0) \<or> is_dict (reply_markup a0)
      then a0\<lparr>reply_markup := normalize_markup (reply_markup a0)\<rparr>
      else if reply_markup a0 = PNone then a0\<lparr>reply_markup := PList [PList []]\<rparr>
      else a0)"

definition attempt :: "env \<Rightarrow> state \<Rightarrow> edit_args \<Rightarrow> outcome \<times> state" where
  "attempt e st a0 =
     (let a = normalize_arg a0
      in case validate e a of
           Some (Inl x) \<Rightarrow> (Raise x, st)
         | Some (Inr v) \<Rightarrow> (Return v, st)
         | None \<Rightarrow>
             (let (us, unit) = update_unit a (units st);
                  st1 = st\<lparr>units := us\<rparr>
              in case resolve_id a unit of
                   Inl x \<Rightarrow> (Raise x, st1)
                 | Inr i \<Rightarrow>
                     if \<not> truthy i then (Return (PBool False), st1)
                     else if list_all (\<lambda>b. b) (media_params a)
                       then edit_text e st1 (a\<lparr>inline_message_id := i\<rparr>) unit
                     else edit_media e st1 (a\<lparr>inline_message_id := i\<rparr>) unit))"

text \<open>
  \<^verbatim>\<open>_edit_unit\<close>. The call may call itself without bound; the first argument bounds the
  number of passes, and \<open>None\<close> says that the bound was reached before the call returned.
\<close>

fun edit_unit :: "nat \<Rightarrow> env \<Rightarrow> state \<Rightarrow> edit_args \<Rightarrow> ((exn + pyval) \<times> state) option" where
  "edit_unit 0 e st a = None"
| "edit_unit (Suc n) e st a =
     (case attempt e st a of
        (Return v, st1) \<Rightarrow> Some (Inr v, st1)
      | (Raise x, st1) \<Rightarrow> Some (Inl x, st1)
      | (Retry kwargs, st1) \<Rightarrow> edit_unit n e st1 kwargs)"

section \<open>Auxiliary definitions and example data\<close>


text \<open>
  An environment, a state and a parameter record for concrete runs: URLs start with
  \<^verbatim>\<open>http\<close>, the \<open>k\<close>-th random string repeats the \<open>k\<close>-th letter, the extension of a URL is
  its last four characters, and the callable 0 raises while every other one returns.
\<close>

definition env0 :: env where
  "env0 = \<lparr>check_url = (\<lambda>v. case v of PStr s \<Rightarrow> take 4 s = ''http'' | _ \<Rightarrow> False),
           rand = (\<lambda>k n. replicate n (char_of (97 + k))),
           url_ext = (\<lambda>v. case v of PStr s \<Rightarrow> Some (drop (length s - 4) s) | _ \<Rightarrow> None),
           call = (\<lambda>f us. (f = 0, us))\<rparr>"

definition st0 :: state where
  "st0 = \<lparr>units = [(''u1'', [(''chat'', PInt 5), (''message_id'', PInt 7),
                               (''force_me'', PBool True), (''buttons'', PList []),
                               (''on_unload'', PCallable 0)])],
          custom_map = [], rand_calls = 0, responses = [], trace = []\<rparr>"

definition args0 :: edit_args where
  "args0 = \<lparr>text_arg = PStr ''hi'', reply_markup = PNone, photo = PNone, file_arg = PNone,
            video = PNone, audio = PNone, gif = PNone, mime_type = PNone, force_me = PNone,
            disable_security = PNone, always_allow = PNone,
            disable_web_page_preview = PBool True,
            query_arg = None, unit_uid = None, inline_message_id = PNone\<rparr>"



text \<open>
  A matrix is tokenised when each of its callback buttons carries \<^verbatim>\<open>_callback_data\<close> and
  each of its input buttons carries \<^verbatim>\<open>_switch_query\<close>.
\<close>

definition tokenized_button :: "pyval \<Rightarrow> bool" where
  "tokenized_button b =
     (case b of
        PDict d \<Rightarrow> (has_key ''callback'' d \<longrightarrow> has_key ''_callback_data'' d)
                  \<and> (has_key ''input'' d \<longrightarrow> has_key ''_switch_query'' d)
      | _ \<Rightarrow> True)"

definition tokenized_rows :: "pyval list \<Rightarrow> bool" where
  "tokenized_rows rows =
     list_all (\<lambda>row. case py_iter row of Inl x \<Rightarrow> True | Inr bs \<Rightarrow> list_all tokenized_button bs) rows"

definition tokenized :: "pyval \<Rightarrow> bool" where
  "tokenized m = (case py_iter m of Inl x \<Rightarrow> True | Inr rows \<Rightarrow> tokenized_rows rows)"



section \<open>The first loop of the compiler\<close>







section \<open>Properties of the compiler\<close>




section \<open>Unload and delete\<close>

text \<open>
  C4, as amended. Unload on a uid that is not in the unit store returns False and raises
  nothing. Unload on a stored unit whose \<^verbatim>\<open>on_unload\<close> hook raises returns False as well,
  but removes nothing: the store is the one the hook left.
\<close>


theorem unload_absent_or_failing_hook:
  "(lookup_unit (units st) uid = None \<longrightarrow> unload_unit e st uid = (False, st))
   \<and> (lookup_unit (units st) uid = Some u \<and> map_of u ''on_unload'' = Some (PCallable f)
        \<and> call e f (units st) = (True, us)
      \<longrightarrow> unload_unit e st uid = (False, st\<lparr>units := us, trace := trace st @ [OnUnload f]\<rparr>))"
  by (simp add: unload_unit_def)

theorem unload_absent_or_failing_hook_witness:
  "lookup_unit (units st0) (Some ''zz'') = None
   \<and> unload_unit env0 st0 (Some ''zz'') = (False, st0)
   \<and> lookup_unit (units st0) (Some ''u1'') \<noteq> None
   \<and> unload_unit env0 st0 (Some ''u1'') = (False, st0\<lparr>trace := [OnUnload 0]\<rparr>)
   \<and> lookup_unit (units (snd (unload_unit env0 st0 (Some ''u1'')))) (Some ''u1'') \<noteq> None"
proof -
  have a: "lookup_unit (units st0) (Some ''zz'') = None"
    by (simp add: lookup_unit_def st0_def)
  have b: "lookup_unit (units st0) (Some ''u1'') = Some [(''chat'', PInt 5), (''message_id'', PInt 7), (''force_me'', PBool True),
                               (''buttons'', PList []), (''on_unload'', PCallable 0)]"
    by (simp add: lookup_unit_def st0_def)
  have c: "call env0 0 (units st0) = (True, units st0)" by (simp add: env0_def)
  have d: "st0\<lparr>units := units st0, trace := trace st0 @ [OnUnload 0]\<rparr> = st0\<lparr>trace := [OnUnload 0]\<rparr>"
    by (simp add: st0_def)
  from unload_absent_or_failing_hook [of st0 "Some ''zz''" env0 _ 0 "units st0"]
       unload_absent_or_failing_hook [of st0 "Some ''u1''" env0 _ 0 "units st0"] a b c d
  show ?thesis by (simp add: lookup_unit_def st0_def)
qed

theorem unload_failing_hook_counterexample:
  "\<not> (fst (unload_unit env0 st0 (Some ''u1'')) = False
      \<and> lookup_unit (units (snd (unload_unit env0 st0 (Some ''u1'')))) (Some ''u1'') = None)"
  by code_simp


text \<open>
  C5. Delete never unloads before the remote delete is confirmed: when the transport call
  \<^verbatim>\<open>delete_messages\<close> fails, Delete returns False; whenever Delete returns False the unit
  store is unchanged and no teardown hook has been called; and Delete returns True only
  after the remote delete has succeeded, the state then being the one Unload leaves.
\<close>

theorem delete_unloads_only_after_remote_delete:
  assumes "delete_unit_message e st uid = (b, st')"
  shows "(responses st = Some x # rs \<longrightarrow> \<not> b)
       \<and> (\<not> b \<longrightarrow> units st' = units st
              \<and> (\<exists>evs. trace st' = trace st @ evs \<and> (\<forall>f. OnUnload f \<notin> set evs)))
       \<and> (b \<longrightarrow> (\<exists>u c m st1. lookup_unit (units st) uid = Some u
                    \<and> getitem u ''chat'' = Inr c \<and> getitem u ''message_id'' = Inr m
                    \<and> transport (DeleteMessages c (PList [m])) st = (None, st1)
                    \<and> st' = snd (unload_unit e st1 uid)))"
  using assms
  by (auto simp: delete_unit_message_def transport_def bindE_def
           split: option.splits sum.splits prod.splits list.splits)

theorem delete_unloads_only_after_remote_delete_witness:
  "delete_unit_message env0 (st0\<lparr>responses := [Some OtherError]\<rparr>) (Some ''u1'')
     = (False, st0\<lparr>trace := [DeleteMessages (PInt 5) (PList [PInt 7])]\<rparr>)
   \<and> units (st0\<lparr>trace := [DeleteMessages (PInt 5) (PList [PInt 7])]\<rparr>) = units (st0\<lparr>responses := [Some OtherError]\<rparr>)
   \<and> fst (delete_unit_message env0 (st0\<lparr>units := [(''u2'', [(''chat'', PInt 5), (''message_id'', PInt 7)])]\<rparr>) (Some ''u2''))
   \<and> units (snd (delete_unit_message env0 (st0\<lparr>units := [(''u2'', [(''chat'', PInt 5), (''message_id'', PInt 7)])]\<rparr>) (Some ''u2''))) = []"
proof -
  have a: "delete_unit_message env0 (st0\<lparr>responses := [Some OtherError]\<rparr>) (Some ''u1'')
     = (False, st0\<lparr>trace := [DeleteMessages (PInt 5) (PList [PInt 7])]\<rparr>)"
    by code_simp
  have b: "delete_unit_message env0 (st0\<lparr>units := [(''u2'', [(''chat'', PInt 5), (''message_id'', PInt 7)])]\<rparr>) (Some ''u2'')
     = (True, st0\<lparr>units := [], trace := [DeleteMessages (PInt 5) (PList [PInt 7])]\<rparr>)"
    by code_simp
  from delete_unloads_only_after_remote_delete [OF a, of OtherError "[]"]
       delete_unloads_only_after_remote_delete [OF b, of OtherError "[]"] a b
  show ?thesis by (simp add: st0_def)
qed

section \<open>The checks of the edit call\<close>

text \<open>
  A call with two or more media parameters set and with no \<^verbatim>\<open>file\<close> (or a false one) returns
  False, and it leaves the state as it was: no transport call, no change of the unit store.
\<close>

lemma validate_exclusive:
  assumes "count_list (media_params a) False > 1" and "\<not> truthy (file_arg a)"
  shows "validate e a = Some (Inr (PBool False))"
  using assms by (simp add: validate_def)

lemma attempt_exclusive:
  assumes "count_list (media_params a) False > 1" and "\<not> truthy (file_arg a)"
  shows "attempt e st a = (Return (PBool False), st)"
proof -
  let ?a = "normalize_arg a"
  have "media_params ?a = media_params a" "file_arg ?a = file_arg a"
    by (simp_all add: media_params_def normalize_arg_def)
  with assms have "count_list (media_params ?a) False > 1" "\<not> truthy (file_arg ?a)"
    by simp_all
  then have "validate e ?a = Some (Inr (PBool False))" by (rule validate_exclusive)
  then show ?thesis by (simp add: attempt_def Let_def)
qed

lemma edit_exclusive_media_rejected:
  assumes "count_list (media_params a) False > 1" and "\<not> truthy (file_arg a)"
  shows "edit_unit (Suc n) e st a = Some (Inr (PBool False), st)"
  using attempt_exclusive [OF assms] by simp

text \<open>
  C1, at the failing input. With \<^verbatim>\<open>photo\<close> and \<^verbatim>\<open>file\<close> both set, the claim has the call return
  False. The check of \<^verbatim>\<open>file\<close> calls \<^verbatim>\<open>isinstance\<close> with four arguments, so the call raises
  TypeError before the test of the exclusive parameters is reached (the state is unchanged).
\<close>

theorem exclusive_media_with_file_raises:
  "edit_unit 1 env0 st0
     (args0\<lparr>photo := PStr ''https://example.com/cat.png'',
            file_arg := PStr ''https://example.com/a.pdf'',
            mime_type := PStr ''application/pdf'',
            inline_message_id := PStr ''id''\<rparr>) = Some (Inl TypeError, st0)"
  by code_simp

text \<open>
  C7, at the failing inputs. A set \<^verbatim>\<open>file\<close> (a URL, or bytes) makes the edit call raise
  TypeError; with no explicit \<^verbatim>\<open>inline_message_id\<close>, no stored one and no query, the read of
  \<^verbatim>\<open>query.inline_message_id\<close> raises AttributeError before the test that would return False.
\<close>

theorem edit_raises_uncaught:
  "edit_unit 1 env0 st0
     (args0\<lparr>file_arg := PStr ''https://example.com/a.pdf'', mime_type := PStr ''application/pdf'',
            inline_message_id := PStr ''id''\<rparr>) = Some (Inl TypeError, st0)
   \<and> edit_unit 1 env0 st0
     (args0\<lparr>file_arg := PBytes ''abc'', mime_type := PStr ''application/pdf'',
            inline_message_id := PStr ''id''\<rparr>) = Some (Inl TypeError, st0)
   \<and> edit_unit 1 env0 st0 args0 = Some (Inl AttributeError, st0)"
  by code_simp

section \<open>The media edit\<close>

text \<open>
  C2, at the failing input. The only media parameter is \<^verbatim>\<open>photo\<close>, a URL whose extension is
  \<^verbatim>\<open>.gif\<close>. The reclassification reads the extension from the variable \<^verbatim>\<open>media\<close>, which is
  unbound at that point, so the extension is None and the payload sent is an
  \<^verbatim>\<open>InputMediaPhoto\<close>, not an \<^verbatim>\<open>InputMediaAnimation\<close>.
\<close>

theorem photo_gif_url_sent_as_photo:
  "url_ext env0 (PStr ''https://example.com/cat.gif'') = Some ''.gif''
   \<and> edit_unit 1 env0 st0
       (args0\<lparr>photo := PStr ''https://example.com/cat.gif'', inline_message_id := PStr ''id''\<rparr>)
     = Some (Inr PNone,
             st0\<lparr>trace := [EditMessageMedia (PStr ''id'')
                              (InputMediaPhoto (PStr ''https://example.com/cat.gif'') (PStr ''hi''))
                              (InlineKeyboardMarkup [[]])]\<rparr>)"
  by code_simp

section \<open>A button with several kinds\<close>






section \<open>The unit store under an edit\<close>



































end
